theory Spec2Isabelle
  imports Main "HOL-Library.Sublist"
begin

section \<open>Values and strings of the host language\<close>

text \<open>
  The field values of a record are whatever JSON the remote service returns: a string, a
  number, a boolean, null, an array, or an object. A key that the record does not hold
  reads as \<open>undefined\<close>, which is \<open>None\<close> of the lookup below.
\<close>

datatype jsvalue =
    JString string
  | JNumber int
  | JBool bool
  | JNull
  | JArray "jsvalue list"
  | JObject "(string \<times> jsvalue) list"

text \<open>
  A string of the host language is modelled by the list of the bytes of its UTF-8 form;
  for well-formed strings, one occurs in another as a run of code units exactly when its
  bytes occur in the other's bytes as a run.

  \<open>String.prototype.toLowerCase\<close> belongs to the language, not to this repository,
  and its case tables (all of Unicode, with mappings that depend on the context and that
  change the length) are not written out here. A \<open>lowering\<close> is any function on
  strings that leaves the empty string empty, as the language's function does. Every
  definition that lower-cases takes the lowering as its first argument, so what is proved
  holds for every lowering, the language's own among them.
\<close>

typedef lowering = "{f :: string \<Rightarrow> string. f [] = []}"
  by (rule exI [of _ "\<lambda>s. s"]) simp

definition toLowerCase :: "lowering \<Rightarrow> string \<Rightarrow> string" where
  "toLowerCase L s = Rep_lowering L s"

text \<open>
  \<open>String.prototype.includes\<close>: does \<open>t\<close> occur in \<open>s\<close> as a contiguous run,
  starting at some position? \<open>startsWith\<close> is the test at one position.
\<close>

fun startsWith :: "string \<Rightarrow> string \<Rightarrow> bool" where
  "startsWith s [] = True"
| "startsWith [] (c # t) = False"
| "startsWith (d # s) (c # t) = (d = c \<and> startsWith s t)"

fun includes_str :: "string \<Rightarrow> string \<Rightarrow> bool" where
  "includes_str [] t = (t = [])"
| "includes_str (d # s) t = (startsWith (d # s) t \<or> includes_str s t)"

section \<open>Records and the match evaluator\<close>

record airtable_record =
  record_id :: string
  record_fields :: "(string \<times> jsvalue) list"
  createdTime :: "string option"

text \<open>\<open>record.fields[fieldName]\<close>: the value stored under the key, if there is one.\<close>

definition field_value :: "airtable_record \<Rightarrow> string \<Rightarrow> jsvalue option" where
  "field_value r fieldName = map_of (record_fields r) fieldName"

text \<open>
  The callback given to \<open>value.some\<close> for an array value: the element has to be a
  string, and its lower-cased text has to include the lower-cased term.
\<close>

fun item_matches :: "lowering \<Rightarrow> string \<Rightarrow> jsvalue \<Rightarrow> bool" where
  "item_matches L searchTerm (JString item) =
     includes_str (toLowerCase L item) (toLowerCase L searchTerm)"
| "item_matches L searchTerm _ = False"

text \<open>
  The callback given to \<open>searchFieldNames.some\<close>: a string value is tested itself, an
  array value element by element, anything else gives \<open>false\<close>.
\<close>

fun value_matches :: "lowering \<Rightarrow> string \<Rightarrow> jsvalue option \<Rightarrow> bool" where
  "value_matches L searchTerm (Some (JString v)) =
     includes_str (toLowerCase L v) (toLowerCase L searchTerm)"
| "value_matches L searchTerm (Some (JArray items)) =
     list_ex (item_matches L searchTerm) items"
| "value_matches L searchTerm _ = False"

text \<open>The callback given to \<open>records.filter\<close>.\<close>

definition record_matches ::
  "lowering \<Rightarrow> string list \<Rightarrow> string \<Rightarrow> airtable_record \<Rightarrow> bool" where
  "record_matches L searchFieldNames searchTerm r =
     list_ex (\<lambda>fieldName. value_matches L searchTerm (field_value r fieldName))
       searchFieldNames"

section \<open>Table schemas and the field resolver\<close>

record field_schema =
  f_id :: string
  f_name :: string
  f_type :: string
  f_description :: "string option"

record table_schema =
  t_id :: string
  t_name :: string
  t_description :: "string option"
  t_fields :: "field_schema list"

definition textFieldTypes :: "string list" where
  "textFieldTypes =
     [''singleLineText'', ''multilineText'', ''richText'',
      ''email'', ''url'', ''phone'', ''multipleRecordLinks'']"

text \<open>
  The names to search in: with a non-empty \<open>fieldIds\<close>, the fields of the table whose id
  is among them; otherwise (no \<open>fieldIds\<close>, or an empty array) the fields of a text-like type.
\<close>

definition searchFieldNames :: "field_schema list \<Rightarrow> string list option \<Rightarrow> string list" where
  "searchFieldNames table_fields fieldIds =
     (case fieldIds of
        Some (i # ids) \<Rightarrow> map f_name (filter (\<lambda>f. f_id f \<in> set (i # ids)) table_fields)
      | _ \<Rightarrow> map f_name (filter (\<lambda>f. f_type f \<in> set textFieldTypes) table_fields))"

section \<open>Thrown values\<close>

text \<open>
  What a remote call can throw: an error object of the language, with a name and a message,
  or the error object of the table service's client library, with an error code, a message
  and an HTTP status (absent, or 0, when there is none).
\<close>

datatype thrown =
    JsError string string
  | AirtableError string string "nat option"

fun message_of :: "thrown \<Rightarrow> string" where
  "message_of (JsError name msg) = msg"
| "message_of (AirtableError err msg statusCode) = msg"

text \<open>
  A natural number in a template string: its decimal digits. \<open>digit\<close> is only applied
  to numbers below ten.
\<close>

definition digit :: "nat \<Rightarrow> char" where
  "digit n = ''0123456789'' ! n"

function dec :: "nat \<Rightarrow> string" where
  "dec n = (if n < 10 then [digit n] else dec (n div 10) @ [digit (n mod 10)])"
  by pat_completeness auto
termination
  by (relation "measure (\<lambda>n. n)") auto

declare dec.simps [simp del]

text \<open>
  What \<open>${error}\<close> puts into a template string: the \<open>toString\<close> of the thrown value.
  For a language error it is the name, a colon and the message (only the one that is not
  empty when the other is); for the client library's error it is the message, the error
  code in parentheses and the HTTP status when there is one.
\<close>

fun toString :: "thrown \<Rightarrow> string" where
  "toString (JsError name msg) =
     (if name = [] then msg else if msg = [] then name else name @ '': '' @ msg)"
| "toString (AirtableError err msg statusCode) =
     msg @ ''('' @ err @ '')'' @
     (case statusCode of
        None \<Rightarrow> []
      | Some n \<Rightarrow> if n = 0 then [] else ''[Http code '' @ dec n @ '']'')"

definition new_Error :: "string \<Rightarrow> thrown" where
  "new_Error msg = JsError ''Error'' msg"

text \<open>
  The search fields of a table together with the check that follows their computation:
  with no name left, an error is thrown.
\<close>

definition resolve_search_fields :: "field_schema list \<Rightarrow> string list option \<Rightarrow> thrown + string list" where
  "resolve_search_fields table_fields fieldIds =
     (let names = searchFieldNames table_fields fieldIds
      in if length names = 0 then Inl (new_Error ''No searchable fields found'') else Inr names)"

section \<open>The remote service\<close>

datatype direction = Asc | Desc

record sort_item =
  sort_field :: string
  sort_direction :: "direction option"

record select_params =
  view :: "string option"
  select_fields :: "string list option"
  maxRecords :: "int option"
  filterByFormula :: "string option"
  sort :: "sort_item list option"

record schema_response =
  ok :: bool
  status :: nat
  tables :: "table_schema list"

text \<open>
  The requests a handler can send. The log of the requests sent is the first component of
  every handler's result, in the order in which they were sent.
\<close>

datatype remote_call =
    MetaTables string
  | Select string string select_params
  | Find string string string
  | Create string string "(string \<times> jsvalue) list"
  | Update string string string "(string \<times> jsvalue) list"
  | Destroy string string string

text \<open>
  The remote service answers each request with a value or throws. \<open>meta_tables\<close> is the
  metadata endpoint of a base (the response, parsed), \<open>select_all\<close> is
  \<open>base(table).select(params).all()\<close>, and the other four are \<open>find\<close>, \<open>create\<close>,
  \<open>update\<close> and \<open>destroy\<close> of a table.
\<close>

record remote =
  meta_tables :: "string \<Rightarrow> thrown + schema_response"
  select_all :: "string \<Rightarrow> string \<Rightarrow> select_params \<Rightarrow> thrown + airtable_record list"
  find_record :: "string \<Rightarrow> string \<Rightarrow> string \<Rightarrow> thrown + airtable_record"
  create_record :: "string \<Rightarrow> string \<Rightarrow> (string \<times> jsvalue) list \<Rightarrow> thrown + airtable_record"
  update_record ::
    "string \<Rightarrow> string \<Rightarrow> string \<Rightarrow> (string \<times> jsvalue) list \<Rightarrow> thrown + airtable_record"
  destroy_record :: "string \<Rightarrow> string \<Rightarrow> string \<Rightarrow> thrown + airtable_record"

definition no_params :: select_params where
  "no_params =
     \<lparr>view = None, select_fields = None, maxRecords = None, filterByFormula = None, sort = None\<rparr>"

text \<open>The shape every handler of the record module gives a record it returns.\<close>

definition normalize :: "airtable_record \<Rightarrow> airtable_record" where
  "normalize r =
     \<lparr>record_id = record_id r, record_fields = record_fields r, createdTime = createdTime r\<rparr>"

section \<open>The record module\<close>

text \<open>\<open>if (view)\<close>: an absent string and the empty string are both falsy.\<close>

definition truthy :: "string option \<Rightarrow> bool" where
  "truthy x = (case x of None \<Rightarrow> False | Some v \<Rightarrow> v \<noteq> [])"

text \<open>The parameters \<open>listRecords\<close> gives to \<open>select\<close>.\<close>

definition listRecords_queryParams ::
  "int option \<Rightarrow> string option \<Rightarrow> sort_item list option \<Rightarrow> select_params" where
  "listRecords_queryParams maxRecords_arg view_arg sort_arg =
     (let maxRecords_v = (case maxRecords_arg of None \<Rightarrow> 100 | Some n \<Rightarrow> n)
      in no_params
           \<lparr>maxRecords := Some maxRecords_v,
            view := (if truthy view_arg then view_arg else None),
            sort := sort_arg\<rparr>)"

definition listRecords_handler ::
  "remote \<Rightarrow> string \<Rightarrow> string \<Rightarrow> int option \<Rightarrow> string option \<Rightarrow> sort_item list option
     \<Rightarrow> remote_call list \<times> (thrown + airtable_record list)" where
  "listRecords_handler rm baseId tableIdOrName maxRecords_arg view_arg sort_arg =
     (let queryParams = listRecords_queryParams maxRecords_arg view_arg sort_arg
      in case select_all rm baseId tableIdOrName queryParams of
           Inl error \<Rightarrow>
             ([Select baseId tableIdOrName queryParams],
              Inl (new_Error (''Failed to list records: '' @ toString error)))
         | Inr records \<Rightarrow>
             ([Select baseId tableIdOrName queryParams], Inr (map normalize records)))"

definition getRecord_handler ::
  "remote \<Rightarrow> string \<Rightarrow> string \<Rightarrow> string \<Rightarrow> remote_call list \<times> (thrown + airtable_record)" where
  "getRecord_handler rm baseId tableIdOrName recordId =
     (case find_record rm baseId tableIdOrName recordId of
        Inl error \<Rightarrow>
          ([Find baseId tableIdOrName recordId],
           Inl (new_Error (''Failed to get record: '' @ toString error)))
      | Inr r \<Rightarrow> ([Find baseId tableIdOrName recordId], Inr (normalize r)))"

definition createRecord_handler ::
  "remote \<Rightarrow> string \<Rightarrow> string \<Rightarrow> (string \<times> jsvalue) list
     \<Rightarrow> remote_call list \<times> (thrown + airtable_record)" where
  "createRecord_handler rm baseId tableIdOrName fields_arg =
     (case create_record rm baseId tableIdOrName fields_arg of
        Inl error \<Rightarrow>
          ([Create baseId tableIdOrName fields_arg],
           Inl (new_Error (''Failed to create record: '' @ toString error)))
      | Inr r \<Rightarrow> ([Create baseId tableIdOrName fields_arg], Inr (normalize r)))"

definition updateRecord_handler ::
  "remote \<Rightarrow> string \<Rightarrow> string \<Rightarrow> string \<Rightarrow> (string \<times> jsvalue) list
     \<Rightarrow> remote_call list \<times> (thrown + airtable_record)" where
  "updateRecord_handler rm baseId tableIdOrName recordId fields_arg =
     (case update_record rm baseId tableIdOrName recordId fields_arg of
        Inl error \<Rightarrow>
          ([Update baseId tableIdOrName recordId fields_arg],
           Inl (new_Error (''Failed to update record: '' @ toString error)))
      | Inr r \<Rightarrow> ([Update baseId tableIdOrName recordId fields_arg], Inr (normalize r)))"

text \<open>The result of a deletion: the id of the deleted record and the flag \<open>deleted: true\<close>.\<close>

definition deleteRecord_handler ::
  "remote \<Rightarrow> string \<Rightarrow> string \<Rightarrow> string \<Rightarrow> remote_call list \<times> (thrown + string \<times> bool)" where
  "deleteRecord_handler rm baseId tableIdOrName recordId =
     (case destroy_record rm baseId tableIdOrName recordId of
        Inl error \<Rightarrow>
          ([Destroy baseId tableIdOrName recordId],
           Inl (new_Error (''Failed to delete record: '' @ toString error)))
      | Inr deletedRecord \<Rightarrow>
          ([Destroy baseId tableIdOrName recordId], Inr (record_id deletedRecord, True)))"

subsection \<open>Search on the client side\<close>

text \<open>
  The first step of the search: the tables of the base are requested from the metadata
  endpoint, a response that is not ok is an error, and the table is the first one whose id
  or name is the given identifier.
\<close>

definition schema_lookup :: "remote \<Rightarrow> string \<Rightarrow> string \<Rightarrow> thrown + table_schema" where
  "schema_lookup rm baseId tableIdOrName =
     (case meta_tables rm baseId of
        Inl error \<Rightarrow> Inl error
      | Inr schemaResponse \<Rightarrow>
          if \<not> ok schemaResponse
          then Inl (new_Error (''Schema API responded with status '' @ dec (status schemaResponse)))
          else (case find (\<lambda>t. t_id t = tableIdOrName \<or> t_name t = tableIdOrName)
                       (tables schemaResponse) of
                  None \<Rightarrow> Inl (new_Error (''Table '' @ tableIdOrName @ '' not found''))
                | Some t \<Rightarrow> Inr t))"

text \<open>
  The parameters the search gives to \<open>select\<close>: the record limit, 100 when the caller
  gave none.
\<close>

definition searchRecords_queryParams :: "int option \<Rightarrow> select_params" where
  "searchRecords_queryParams maxRecords_arg =
     no_params\<lparr>maxRecords := Some (case maxRecords_arg of None \<Rightarrow> 100 | Some n \<Rightarrow> n)\<rparr>"

text \<open>
  The body of the \<open>try\<close> block: schema lookup, then the records are fetched, then the
  search fields are determined, then the records are filtered.
\<close>

definition searchRecords_try ::
  "lowering \<Rightarrow> remote \<Rightarrow> string \<Rightarrow> string \<Rightarrow> string \<Rightarrow> string list option \<Rightarrow> int option
     \<Rightarrow> remote_call list \<times> (thrown + airtable_record list)" where
  "searchRecords_try L rm baseId tableIdOrName searchTerm fieldIds maxRecords_arg =
     (case schema_lookup rm baseId tableIdOrName of
        Inl error \<Rightarrow> ([MetaTables baseId], Inl error)
      | Inr t \<Rightarrow>
          (let q = searchRecords_queryParams maxRecords_arg;
               calls = [MetaTables baseId, Select baseId tableIdOrName q]
           in case select_all rm baseId tableIdOrName q of
                Inl error \<Rightarrow> (calls, Inl error)
              | Inr records \<Rightarrow>
                  (case resolve_search_fields (t_fields t) fieldIds of
                     Inl error \<Rightarrow> (calls, Inl error)
                   | Inr names \<Rightarrow>
                       (calls,
                        Inr (map normalize
                               (filter (record_matches L names searchTerm) records))))))"

text \<open>The \<open>catch\<close> block: whatever was thrown is thrown again under a new message.\<close>

definition searchRecords_handler ::
  "lowering \<Rightarrow> remote \<Rightarrow> string \<Rightarrow> string \<Rightarrow> string \<Rightarrow> string list option \<Rightarrow> int option
     \<Rightarrow> remote_call list \<times> (thrown + airtable_record list)" where
  "searchRecords_handler L rm baseId tableIdOrName searchTerm fieldIds maxRecords_arg =
     (case searchRecords_try L rm baseId tableIdOrName searchTerm fieldIds maxRecords_arg of
        (calls, Inl error) \<Rightarrow>
          (calls, Inl (new_Error (''Failed to search records: '' @ toString error)))
      | (calls, Inr found) \<Rightarrow> (calls, Inr found))"

section \<open>The tool server\<close>

text \<open>
  A tool of the server does not throw: it returns its result, or an object with the key
  \<open>error\<close> and, depending on the tool, \<open>details\<close> and \<open>constructedFormula\<close>.
\<close>

record tool_error =
  error :: string
  details :: "string option"
  constructedFormula :: "string option"

text \<open>The shape in which the tools return a record: its id and its fields.\<close>

definition id_and_fields :: "airtable_record \<Rightarrow> string \<times> (string \<times> jsvalue) list" where
  "id_and_fields r = (record_id r, record_fields r)"

text \<open>
  The handler of \<open>airtable_list_records\<close>: the five optional inputs go to \<open>select\<close> as
  they came in.
\<close>

definition listRecordsTool_handler ::
  "remote \<Rightarrow> string \<Rightarrow> string \<Rightarrow> select_params
     \<Rightarrow> remote_call list \<times> (tool_error + (string \<times> (string \<times> jsvalue) list) list)" where
  "listRecordsTool_handler rm baseId tableIdOrName input =
     (let q = \<lparr>view = view input, select_fields = select_fields input,
               maxRecords = maxRecords input, filterByFormula = filterByFormula input,
               sort = sort input\<rparr>
      in case select_all rm baseId tableIdOrName q of
           Inl e \<Rightarrow>
             ([Select baseId tableIdOrName q],
              Inl \<lparr>error = message_of e, details = Some (toString e),
                    constructedFormula = None\<rparr>)
         | Inr records \<Rightarrow> ([Select baseId tableIdOrName q], Inr (map id_and_fields records)))"

subsection \<open>Search by formula\<close>

text \<open>
  \<open>searchTerm.replace(/"/g, '""')\<close>: every double quote (character 34) of the term is
  replaced by two of them.
\<close>

definition replace_quotes :: "string \<Rightarrow> string" where
  "replace_quotes s = concat (map (\<lambda>c. if c = CHR 0x22 then [CHR 0x22, CHR 0x22] else [c]) s)"

text \<open>\<open>Array.prototype.join\<close> on strings.\<close>

fun join :: "string \<Rightarrow> string list \<Rightarrow> string" where
  "join sep [] = []"
| "join sep [x] = x"
| "join sep (x # y # ys) = x @ sep @ join sep (y # ys)"

definition searchFormulaPart :: "string \<Rightarrow> string \<Rightarrow> string" where
  "searchFormulaPart searchTerm fieldName =
     ''FIND(LOWER('' @ [CHR 0x22] @ replace_quotes searchTerm @ [CHR 0x22] @
     ''), LOWER({'' @ fieldName @ ''}))''"

definition searchFormula :: "string list \<Rightarrow> string \<Rightarrow> string" where
  "searchFormula fieldNames searchTerm =
     ''OR('' @ join '', '' (map (searchFormulaPart searchTerm) fieldNames) @ '')''"

definition fieldNames_required :: string where
  "fieldNames_required =
     ''The '' @ [CHR 0x27] @ ''fieldNames'' @ [CHR 0x27] @
     '' array must be provided and contain at least one field name to search in.''"

text \<open>
  The handler of \<open>airtable_search_records\<close>: without field names it returns at once;
  otherwise the formula is built and given to \<open>select\<close> with the record limit.
\<close>

definition searchRecordsTool_handler ::
  "remote \<Rightarrow> string \<Rightarrow> string \<Rightarrow> string \<Rightarrow> string list option \<Rightarrow> int option
     \<Rightarrow> remote_call list \<times> (tool_error + (string \<times> (string \<times> jsvalue) list) list)" where
  "searchRecordsTool_handler rm baseId tableIdOrName searchTerm fieldNames maxRecords_arg =
     (let maxRecords_v = (case maxRecords_arg of None \<Rightarrow> 100 | Some n \<Rightarrow> n)
      in case fieldNames of
           None \<Rightarrow>
             ([], Inl \<lparr>error = fieldNames_required, details = None, constructedFormula = None\<rparr>)
         | Some [] \<Rightarrow>
             ([], Inl \<lparr>error = fieldNames_required, details = None, constructedFormula = None\<rparr>)
         | Some (n # ns) \<Rightarrow>
             (let formula = searchFormula (n # ns) searchTerm;
                  q = no_params\<lparr>filterByFormula := Some formula, maxRecords := Some maxRecords_v\<rparr>
              in case select_all rm baseId tableIdOrName q of
                   Inl e \<Rightarrow>
                     ([Select baseId tableIdOrName q],
                      Inl \<lparr>error = message_of e, details = Some (toString e),
                            constructedFormula = Some (searchFormula (n # ns) searchTerm)\<rparr>)
                 | Inr records \<Rightarrow>
                     ([Select baseId tableIdOrName q], Inr (map id_and_fields records))))"

section \<open>The HTTP route for listing records\<close>

text \<open>
  \<open>POST /airtable/list-records\<close>: the request body holds the optional inputs; the
  response is a status code with either the records or an error message.
\<close>

record list_request =
  req_baseId :: "string option"
  req_tableIdOrName :: "string option"
  req_view :: "string option"
  req_fields :: "string list option"
  req_maxRecords :: "int option"
  req_filterByFormula :: "string option"
  req_sort :: "sort_item list option"

definition route_params :: "list_request \<Rightarrow> select_params" where
  "route_params body =
     \<lparr>view = Some (case req_view body of None \<Rightarrow> [] | Some v \<Rightarrow> v),
      select_fields = Some (case req_fields body of None \<Rightarrow> [] | Some fs \<Rightarrow> fs),
      maxRecords = Some (case req_maxRecords body of None \<Rightarrow> 3 | Some n \<Rightarrow> n),
      filterByFormula = Some (case req_filterByFormula body of None \<Rightarrow> [] | Some f \<Rightarrow> f),
      sort = Some (case req_sort body of None \<Rightarrow> [] | Some ss \<Rightarrow> ss)\<rparr>"

definition list_records_route ::
  "remote \<Rightarrow> list_request
     \<Rightarrow> remote_call list \<times> nat \<times> (string + (string \<times> (string \<times> jsvalue) list) list)" where
  "list_records_route rm body =
     (if \<not> truthy (req_baseId body) \<or> \<not> truthy (req_tableIdOrName body)
      then ([], 400, Inl ''baseId and tableIdOrName are required'')
      else
        (let baseId = (case req_baseId body of None \<Rightarrow> [] | Some b \<Rightarrow> b);
             tableIdOrName = (case req_tableIdOrName body of None \<Rightarrow> [] | Some t \<Rightarrow> t);
             q = route_params body
         in case select_all rm baseId tableIdOrName q of
              Inl e \<Rightarrow> ([Select baseId tableIdOrName q], 500, Inl (message_of e))
            | Inr records \<Rightarrow>
                ([Select baseId tableIdOrName q], 200, Inr (map id_and_fields records))))"

section \<open>Substrings up to case, as the specification words them\<close>




text \<open>
  The values that cannot contribute: everything that is neither a string nor an array, and
  an array without a string among its elements.
\<close>

fun is_string :: "jsvalue \<Rightarrow> bool" where
  "is_string (JString v) = True"
| "is_string _ = False"


text \<open>A value with text in it: a string, or an array with a string among its elements.\<close>

fun has_text :: "jsvalue option \<Rightarrow> bool" where
  "has_text (Some (JString v)) = True"
| "has_text (Some (JArray items)) = list_ex is_string items"
| "has_text _ = False"

section \<open>String literals of the formula language, as the specification words them\<close>

text \<open>
  Reading the body of a string literal in which a doubled quote stands for one quote
  character: the text up to the closing quote, and what follows the closing quote. There
  is no result when the closing quote is missing.
\<close>

fun read_literal :: "string \<Rightarrow> (string \<times> string) option" where
  "read_literal [] = None"
| "read_literal (c # cs) =
     (if c \<noteq> CHR 0x22 then map_option (\<lambda>(body, rest). (c # body, rest)) (read_literal cs)
      else (case cs of
              [] \<Rightarrow> Some ([], [])
            | d # ds \<Rightarrow>
                if d = CHR 0x22
                then map_option (\<lambda>(body, rest). (CHR 0x22 # body, rest)) (read_literal ds)
                else Some ([], cs)))"

section \<open>Example data\<close>

text \<open>
  A lowering for the examples: the letters \<open>A\<close> to \<open>Z\<close> (codes 65 to 90) move to
  \<open>a\<close> to \<open>z\<close> (the bit of value 32 is set), every other byte is kept. It agrees
  with the language's function on strings of ASCII characters and stands in for it in the
  examples only.
\<close>

fun ascii_lower :: "char \<Rightarrow> char" where
  "ascii_lower (Char b0 b1 b2 b3 b4 b5 b6 b7) =
     (let n = (of_char (Char b0 b1 b2 b3 b4 b5 b6 b7) :: nat)
      in if 65 \<le> n \<and> n \<le> 90 then Char b0 b1 b2 b3 b4 True b6 b7
         else Char b0 b1 b2 b3 b4 b5 b6 b7)"

definition ascii_lowering :: lowering where
  "ascii_lowering = Abs_lowering (map ascii_lower)"

definition widget :: airtable_record where
  "widget =
     \<lparr>record_id = ''rec1'',
      record_fields =
        [(''Name'', JString ''Widget A''),
         (''Tags'', JArray [JNumber 7, JString ''red'', JString ''blue'']),
         (''Count'', JNumber 3),
         (''Done'', JBool True),
         (''Owner'', JObject [(''name'', JString ''red'')]),
         (''Nums'', JArray [JNumber 1, JNull])],
      createdTime = None\<rparr>"

definition gadget :: airtable_record where
  "gadget =
     \<lparr>record_id = ''rec2'',
      record_fields = [(''Name'', JString ''Gadget''), (''Tags'', JArray [JString ''blue''])],
      createdTime = None\<rparr>"

definition parts_fields :: "field_schema list" where
  "parts_fields =
     [\<lparr>f_id = ''fldA'', f_name = ''Name'', f_type = ''singleLineText'', f_description = None\<rparr>,
      \<lparr>f_id = ''fldB'', f_name = ''Count'', f_type = ''number'', f_description = None\<rparr>,
      \<lparr>f_id = ''fldC'', f_name = ''Tags'', f_type = ''multipleRecordLinks'',
        f_description = None\<rparr>]"

definition parts_table :: table_schema where
  "parts_table =
     \<lparr>t_id = ''tblParts'', t_name = ''Parts'', t_description = None, t_fields = parts_fields\<rparr>"

definition orders_table :: table_schema where
  "orders_table =
     \<lparr>t_id = ''tblOrders'', t_name = ''Orders'', t_description = None,
      t_fields =
        [\<lparr>f_id = ''fldN'', f_name = ''Total'', f_type = ''number'', f_description = None\<rparr>]\<rparr>"

definition not_found :: thrown where
  "not_found = AirtableError ''NOT_FOUND'' ''Could not find what you are looking for'' (Some 404)"

text \<open>
  A remote service with one base \<open>app1\<close> of two tables; the table of parts holds the
  two example records, and no record has the id that the examples look up, change or delete.
  Any other base is refused by the metadata endpoint with status 403.
\<close>

definition shop :: remote where
  "shop =
     \<lparr>meta_tables =
        (\<lambda>b. if b = ''app1''
             then Inr \<lparr>ok = True, status = 200, tables = [orders_table, parts_table]\<rparr>
             else Inr \<lparr>ok = False, status = 403, tables = []\<rparr>),
      select_all = (\<lambda>b t q. if b = ''app1'' then Inr [widget, gadget] else Inl not_found),
      find_record = (\<lambda>b t r. Inl not_found),
      create_record = (\<lambda>b t fs. Inl not_found),
      update_record = (\<lambda>b t r fs. Inl not_found),
      destroy_record = (\<lambda>b t r. Inl not_found)\<rparr>"

text \<open>A request to the tool server or the HTTP route that names a base and a table only.\<close>

definition bare_request :: list_request where
  "bare_request =
     \<lparr>req_baseId = Some ''app1'', req_tableIdOrName = Some ''Parts'', req_view = None,
      req_fields = None, req_maxRecords = None, req_filterByFormula = None, req_sort = None\<rparr>"

section \<open>Properties of the string functions\<close>

lemma startsWith_prefix: "startsWith s t = prefix t s"
  by (induction s t rule: startsWith.induct) auto

lemma includes_sublist: "includes_str s t = sublist t s"
  by (induction s) (auto simp: startsWith_prefix sublist_Cons_right)

lemma includes_empty: "includes_str s []"
  by (simp add: includes_sublist)

lemma lowering_empty: "toLowerCase L [] = []"
  using Rep_lowering [of L] by (simp add: toLowerCase_def)

lemma toLowerCase_ascii: "toLowerCase ascii_lowering s = map ascii_lower s"
  by (simp add: toLowerCase_def ascii_lowering_def Abs_lowering_inverse)

lemma ascii_lower_code:
  "(of_char (ascii_lower c) :: nat) =
     (if 65 \<le> (of_char c :: nat) \<and> (of_char c :: nat) \<le> 90 then of_char c + 32 else of_char c)"
  by (cases c) (auto simp: Let_def)


section \<open>The match evaluator\<close>








text \<open>
  An accented letter, in bytes: the field holds \<open>CAF\<close> followed by the capital E with
  an acute accent (bytes C3 89), the term is the small e with an acute accent (bytes C3 A9).
  Under every lowering that maps the one to the other, as the language's does, the record
  matches.
\<close>

lemma accented_letter_matches:
  assumes "toLowerCase L [CHR 0x43, CHR 0x41, CHR 0x46, CHR 0xC3, CHR 0x89] =
      [CHR 0x63, CHR 0x61, CHR 0x66, CHR 0xC3, CHR 0xA9]"
    and "toLowerCase L [CHR 0xC3, CHR 0xA9] = [CHR 0xC3, CHR 0xA9]"
  shows "record_matches L [''Name'']  [CHR 0xC3, CHR 0xA9]
      \<lparr>record_id = ''rec3'',
       record_fields = [(''Name'', JString [CHR 0x43, CHR 0x41, CHR 0x46, CHR 0xC3, CHR 0x89])],
       createdTime = None\<rparr>"
  using assms by (simp add: record_matches_def field_value_def)

section \<open>The field resolver\<close>

lemma set_by_ids:
  "ids \<noteq> [] \<Longrightarrow>
   set (searchFieldNames fs (Some ids)) = {n. \<exists>f \<in> set fs. f_name f = n \<and> f_id f \<in> set ids}"
  by (cases ids) (auto simp: searchFieldNames_def)

lemma set_by_type:
  "fieldIds = None \<or> fieldIds = Some [] \<Longrightarrow>
   set (searchFieldNames fs fieldIds) =
     {n. \<exists>f \<in> set fs. f_name f = n \<and>
        f_type f \<in> {''singleLineText'', ''multilineText'', ''richText'', ''email'', ''url'',
                     ''phone'', ''multipleRecordLinks''}}"
  by (auto simp: searchFieldNames_def textFieldTypes_def)

text \<open>
  Claim C2. With a list of field ids that is given and not empty, the resolver yields
  exactly the names of the fields of the schema whose id is in the list (an id that is the
  id of no field adds nothing and raises nothing). With no list or the empty list, it
  yields exactly the names of the fields whose type is one of \<open>singleLineText\<close>,
  \<open>multilineText\<close>, \<open>richText\<close>, \<open>email\<close>, \<open>url\<close>, \<open>phone\<close>,
  \<open>multipleRecordLinks\<close>. In both branches the resolution fails with the error
  ``No searchable fields found'' exactly when no name results, and otherwise returns the names.
\<close>

theorem field_resolver:
  "(ids \<noteq> [] \<longrightarrow>
      set (searchFieldNames fs (Some ids)) =
        {n. \<exists>f \<in> set fs. f_name f = n \<and> f_id f \<in> set ids})
   \<and> (fieldIds = None \<or> fieldIds = Some [] \<longrightarrow>
      set (searchFieldNames fs fieldIds) =
        {n. \<exists>f \<in> set fs. f_name f = n \<and>
           f_type f \<in> {''singleLineText'', ''multilineText'', ''richText'', ''email'', ''url'',
                        ''phone'', ''multipleRecordLinks''}})
   \<and> (resolve_search_fields fs fieldIds = Inl (new_Error ''No searchable fields found'')
        \<longleftrightarrow> set (searchFieldNames fs fieldIds) = {})
   \<and> (resolve_search_fields fs fieldIds = Inr names
        \<longleftrightarrow> names = searchFieldNames fs fieldIds \<and> set names \<noteq> {})"
  using set_by_ids [of ids fs] set_by_type [of fieldIds fs]
  by (auto simp: resolve_search_fields_def Let_def)

theorem field_resolver_witness:
  "set (searchFieldNames parts_fields (Some [''fldB'', ''fldZ''])) = {''Count''}
   \<and> set (searchFieldNames parts_fields None) = {''Name'', ''Tags''}
   \<and> set (searchFieldNames parts_fields (Some [])) = {''Name'', ''Tags''}
   \<and> resolve_search_fields parts_fields (Some [''fldZ'']) =
       Inl (new_Error ''No searchable fields found'')
   \<and> resolve_search_fields parts_fields (Some [''fldC'']) = Inr [''Tags'']"
proof -
  have "set (searchFieldNames parts_fields (Some [''fldB'', ''fldZ''])) = {''Count''}"
    using field_resolver [of "[''fldB'', ''fldZ'']" parts_fields None "[]"]
    by (auto simp: parts_fields_def)
  moreover have "set (searchFieldNames parts_fields None) = {''Name'', ''Tags''}"
    using field_resolver [of "[]" parts_fields None "[]"]
    by (auto simp: parts_fields_def)
  moreover have "set (searchFieldNames parts_fields (Some [])) = {''Name'', ''Tags''}"
    using field_resolver [of "[]" parts_fields "Some []" "[]"]
    by (auto simp: parts_fields_def)
  moreover have "resolve_search_fields parts_fields (Some [''fldZ'']) =
      Inl (new_Error ''No searchable fields found'')"
    using field_resolver [of "[''fldZ'']" parts_fields "Some [''fldZ'']" "[]"]
    by (auto simp: parts_fields_def)
  moreover have "resolve_search_fields parts_fields (Some [''fldC'']) = Inr [''Tags'']"
    using field_resolver [of "[''fldC'']" parts_fields "Some [''fldC'']" "[''Tags'']"]
    by (auto simp: parts_fields_def searchFieldNames_def)
  ultimately show ?thesis by blast
qed

section \<open>Thrown values and their messages\<close>

lemma carries_message: "sublist (message_of e) (toString e)"
proof (cases e)
  case (JsError name msg)
  have "sublist msg ([] @ msg)" and "sublist msg ((name @ '': '') @ msg)"
    by (rule sublist_append_leftI)+
  with JsError show ?thesis by simp
next
  case (AirtableError err msg statusCode)
  then show ?thesis by simp
qed

lemma carries_prefixed: "sublist (message_of e) (p @ toString e)"
  using carries_message [of e] by (metis sublist_append)

section \<open>The four outcomes of the client-side search\<close>

lemma normalize_id: "normalize r = r"
  by (simp add: normalize_def)

lemma map_normalize: "map normalize rs = rs"
  by (induction rs) (simp_all add: normalize_id)

lemma search_schema_fails:
  "schema_lookup rm B X = Inl e \<Longrightarrow>
   searchRecords_handler L rm B X T ids mr =
     ([MetaTables B], Inl (new_Error (''Failed to search records: '' @ toString e)))"
  by (simp add: searchRecords_handler_def searchRecords_try_def)

lemma search_select_fails:
  "schema_lookup rm B X = Inr t \<Longrightarrow>
   select_all rm B X (searchRecords_queryParams mr) = Inl e \<Longrightarrow>
   searchRecords_handler L rm B X T ids mr =
     ([MetaTables B, Select B X (searchRecords_queryParams mr)],
      Inl (new_Error (''Failed to search records: '' @ toString e)))"
  by (simp add: searchRecords_handler_def searchRecords_try_def Let_def)

lemma search_no_fields:
  "schema_lookup rm B X = Inr t \<Longrightarrow>
   select_all rm B X (searchRecords_queryParams mr) = Inr fetched \<Longrightarrow>
   searchFieldNames (t_fields t) ids = [] \<Longrightarrow>
   searchRecords_handler L rm B X T ids mr =
     ([MetaTables B, Select B X (searchRecords_queryParams mr)],
      Inl (new_Error ''Failed to search records: Error: No searchable fields found''))"
  by (simp add: searchRecords_handler_def searchRecords_try_def Let_def
      resolve_search_fields_def new_Error_def)

lemma search_found:
  "schema_lookup rm B X = Inr t \<Longrightarrow>
   select_all rm B X (searchRecords_queryParams mr) = Inr fetched \<Longrightarrow>
   searchFieldNames (t_fields t) ids \<noteq> [] \<Longrightarrow>
   searchRecords_handler L rm B X T ids mr =
     ([MetaTables B, Select B X (searchRecords_queryParams mr)],
      Inr (filter (record_matches L (searchFieldNames (t_fields t) ids) T) fetched))"
  by (simp add: searchRecords_handler_def searchRecords_try_def Let_def
      resolve_search_fields_def map_normalize)

lemma search_result_inv:
  assumes "searchRecords_handler L rm B X T ids mr = (calls, Inr found)"
  shows "\<exists>t fetched. schema_lookup rm B X = Inr t
     \<and> select_all rm B X (searchRecords_queryParams mr) = Inr fetched
     \<and> searchFieldNames (t_fields t) ids \<noteq> []
     \<and> found = filter (record_matches L (searchFieldNames (t_fields t) ids) T) fetched"
proof (cases "schema_lookup rm B X")
  case (Inl e)
  with assms show ?thesis by (simp add: search_schema_fails)
next
  case (Inr t)
  note t = this
  show ?thesis
  proof (cases "select_all rm B X (searchRecords_queryParams mr)")
    case (Inl e)
    with assms t show ?thesis by (simp add: search_select_fails)
  next
    case (Inr fetched)
    show ?thesis
    proof (cases "searchFieldNames (t_fields t) ids = []")
      case True
      with assms t Inr show ?thesis by (simp add: search_no_fields)
    next
      case False
      with assms t Inr show ?thesis by (simp add: search_found)
    qed
  qed
qed

lemma shop_lookup: "schema_lookup shop ''app1'' ''Parts'' = Inr parts_table"
  by (simp add: schema_lookup_def shop_def parts_table_def orders_table_def)

lemma shop_select: "select_all shop ''app1'' X q = Inr [widget, gadget]"
  by (simp add: shop_def)

section \<open>The result of the client-side search\<close>

lemma count_list_filter:
  "count_list (filter P xs) r = (if P r then count_list xs r else 0)"
  by (induction xs) auto

text \<open>
  Claim C9. When the client-side search returns records, they are the fetched page of
  records filtered by the match evaluator over the resolved field names: the records the
  evaluator accepts, in the order in which they were fetched, each as often as it was
  fetched, and nothing else.
\<close>

theorem search_keeps_fetch_order:
  assumes "searchRecords_handler L rm B X T ids mr = (calls, Inr found)"
  shows "\<exists>t fetched.
      schema_lookup rm B X = Inr t
    \<and> select_all rm B X (searchRecords_queryParams mr) = Inr fetched
    \<and> found = filter (record_matches L (searchFieldNames (t_fields t) ids) T) fetched
    \<and> subseq found fetched
    \<and> (\<forall>r. count_list found r =
          (if record_matches L (searchFieldNames (t_fields t) ids) T r then count_list fetched r else 0))"
proof -
  from search_result_inv [OF assms] obtain t fetched where
    t: "schema_lookup rm B X = Inr t" and
    f: "select_all rm B X (searchRecords_queryParams mr) = Inr fetched" and
    found: "found = filter (record_matches L (searchFieldNames (t_fields t) ids) T) fetched"
    by blast
  from found have s: "subseq found fetched"
    by simp
  from found have c: "\<forall>r. count_list found r =
      (if record_matches L (searchFieldNames (t_fields t) ids) T r then count_list fetched r else 0)"
    by (simp only: count_list_filter) simp
  show ?thesis
    by (rule exI [of _ t], rule exI [of _ fetched]) (intro conjI t f found s c)
qed

theorem search_keeps_fetch_order_witness:
  "searchRecords_handler ascii_lowering shop ''app1'' ''Parts'' ''red'' None (Some 5) =
     ([MetaTables ''app1'', Select ''app1'' ''Parts'' (searchRecords_queryParams (Some 5))],
      Inr [widget])
   \<and> subseq [widget] [widget, gadget]"
proof -
  have names: "searchFieldNames (t_fields parts_table) None = [''Name'', ''Tags'']"
    by (simp add: searchFieldNames_def parts_table_def parts_fields_def textFieldTypes_def)
  have w: "record_matches ascii_lowering [''Name'', ''Tags''] ''red'' widget"
    by (simp add: record_matches_def field_value_def widget_def toLowerCase_ascii)
  have g: "\<not> record_matches ascii_lowering [''Name'', ''Tags''] ''red'' gadget"
    by (simp add: record_matches_def field_value_def gadget_def toLowerCase_ascii)
  have b: "searchRecords_handler ascii_lowering shop ''app1'' ''Parts'' ''red'' None (Some 5) =
     ([MetaTables ''app1'', Select ''app1'' ''Parts'' (searchRecords_queryParams (Some 5))],
      Inr [widget])"
    using search_found [where L = ascii_lowering and ids = None and mr = "Some 5" and T = "''red''",
        OF shop_lookup shop_select] w g
    by (simp add: names)
  from search_keeps_fetch_order [OF b] obtain t fetched where
    "select_all shop ''app1'' ''Parts'' (searchRecords_queryParams (Some 5)) = Inr fetched"
    and "subseq [widget] fetched"
    by blast
  then have "subseq [widget] [widget, gadget]"
    by (simp add: shop_select)
  with b show ?thesis by blast
qed

section \<open>Searching for the empty term\<close>

lemma value_matches_empty: "value_matches L [] x = has_text x"
proof (cases x)
  case None
  then show ?thesis by simp
next
  case (Some y)
  have "item_matches L [] i = is_string i" for i
    by (cases i) (simp_all add: lowering_empty includes_empty)
  then have "list_ex (item_matches L []) items = list_ex is_string items" for items
    by (simp add: list_ex_iff)
  with Some show ?thesis
    by (cases y) (simp_all add: lowering_empty includes_empty)
qed

text \<open>
  Claim C10. With the empty string as search term, the match evaluator accepts a record as
  soon as (and only if) one of the selected fields holds a string or an array with at least
  one string element; so a client-side search with the empty term returns every fetched
  record that has such a field among the resolved ones.
\<close>

theorem empty_term_matches_text:
  "(record_matches L F [] R \<longleftrightarrow> (\<exists>fieldName \<in> set F. has_text (field_value R fieldName)))
   \<and> (searchRecords_handler L rm B X [] ids mr = (calls, Inr found) \<longrightarrow>
        (\<exists>t fetched.
            schema_lookup rm B X = Inr t
          \<and> select_all rm B X (searchRecords_queryParams mr) = Inr fetched
          \<and> found =
              filter (\<lambda>r. \<exists>fieldName \<in> set (searchFieldNames (t_fields t) ids).
                        has_text (field_value r fieldName)) fetched))"
proof (intro conjI impI)
  show "record_matches L F [] R \<longleftrightarrow> (\<exists>fieldName \<in> set F. has_text (field_value R fieldName))"
    by (simp add: record_matches_def list_ex_iff value_matches_empty)
next
  assume "searchRecords_handler L rm B X [] ids mr = (calls, Inr found)"
  from search_result_inv [OF this] obtain t fetched where
    t: "schema_lookup rm B X = Inr t" and
    f: "select_all rm B X (searchRecords_queryParams mr) = Inr fetched" and
    found: "found = filter (record_matches L (searchFieldNames (t_fields t) ids) []) fetched"
    by blast
  have "record_matches L N [] = (\<lambda>r. \<exists>fieldName \<in> set N. has_text (field_value r fieldName))"
    for N
    by (simp add: fun_eq_iff record_matches_def list_ex_iff value_matches_empty)
  with found have "found =
      filter (\<lambda>r. \<exists>fieldName \<in> set (searchFieldNames (t_fields t) ids).
                has_text (field_value r fieldName)) fetched"
    by simp
  with t f show "\<exists>t fetched.
            schema_lookup rm B X = Inr t
          \<and> select_all rm B X (searchRecords_queryParams mr) = Inr fetched
          \<and> found =
              filter (\<lambda>r. \<exists>fieldName \<in> set (searchFieldNames (t_fields t) ids).
                        has_text (field_value r fieldName)) fetched"
    by blast
qed

theorem empty_term_matches_text_witness:
  "has_text (field_value widget ''Tags'') \<and> has_text (field_value gadget ''Tags'')
   \<and> record_matches ascii_lowering [''Count'', ''Tags''] [] widget
   \<and> searchRecords_handler ascii_lowering shop ''app1'' ''Parts'' [] (Some [''fldB'', ''fldC'']) None =
     ([MetaTables ''app1'', Select ''app1'' ''Parts'' (searchRecords_queryParams None)],
      Inr [widget, gadget])"
proof -
  have h: "has_text (field_value widget ''Tags'')"
    by (simp add: field_value_def widget_def)
  have g: "has_text (field_value gadget ''Tags'')"
    by (simp add: field_value_def gadget_def)
  from h have w: "record_matches ascii_lowering [''Count'', ''Tags''] [] widget"
    using empty_term_matches_text [of ascii_lowering "[''Count'', ''Tags'']" widget] by simp
  from g have w': "record_matches ascii_lowering [''Count'', ''Tags''] [] gadget"
    using empty_term_matches_text [of ascii_lowering "[''Count'', ''Tags'']" gadget] by simp
  have names:
    "searchFieldNames (t_fields parts_table) (Some [''fldB'', ''fldC'']) = [''Count'', ''Tags'']"
    by (simp add: searchFieldNames_def parts_table_def parts_fields_def)
  have "searchRecords_handler ascii_lowering shop ''app1'' ''Parts'' [] (Some [''fldB'', ''fldC'']) None =
     ([MetaTables ''app1'', Select ''app1'' ''Parts'' (searchRecords_queryParams None)],
      Inr [widget, gadget])"
    using search_found [where L = ascii_lowering and ids = "Some [''fldB'', ''fldC'']" and mr = None
        and T = "[]",
        OF shop_lookup shop_select]
      w w'
    by (simp add: names)
  with h g w show ?thesis by blast
qed

section \<open>The schema lookup\<close>

lemma lookup_ok:
  "meta_tables rm B = Inr resp \<Longrightarrow> ok resp \<Longrightarrow>
   schema_lookup rm B X =
     (case find (\<lambda>t. t_id t = X \<or> t_name t = X) (tables resp) of
        None \<Rightarrow> Inl (new_Error (''Table '' @ X @ '' not found''))
      | Some t \<Rightarrow> Inr t)"
  by (simp add: schema_lookup_def)

lemma lookup_not_ok:
  "meta_tables rm B = Inr resp \<Longrightarrow> \<not> ok resp \<Longrightarrow>
   schema_lookup rm B X =
     Inl (new_Error (''Schema API responded with status '' @ dec (status resp)))"
  by (simp add: schema_lookup_def)

text \<open>
  Claim C7. The schema lookup for a base and an identifier requests the tables of the base.
  With an ok response it yields the first table whose id or name is the identifier, and
  fails with ``Table \<dots> not found'' exactly when no table has that id or name (the
  search then fails under that message, after the schema request alone). With a response
  that is not ok it fails with ``Schema API responded with status \<dots>'', and so does
  the search.
\<close>

theorem schema_lookup_outcomes:
  assumes "meta_tables rm B = Inr resp"
  shows "(ok resp \<longrightarrow>
           (schema_lookup rm B X = Inl (new_Error (''Table '' @ X @ '' not found''))
              \<longleftrightarrow> \<not> (\<exists>t \<in> set (tables resp). t_id t = X \<or> t_name t = X))
         \<and> (\<forall>t. schema_lookup rm B X = Inr t
              \<longleftrightarrow> (\<exists>i < length (tables resp). t = tables resp ! i
                     \<and> (t_id t = X \<or> t_name t = X)
                     \<and> (\<forall>j < i. \<not> (t_id (tables resp ! j) = X \<or> t_name (tables resp ! j) = X))))
         \<and> ((\<forall>t \<in> set (tables resp). \<not> (t_id t = X \<or> t_name t = X)) \<longrightarrow>
              searchRecords_handler L rm B X T ids mr =
                ([MetaTables B],
                 Inl (new_Error (''Failed to search records: Error: Table '' @ X @ '' not found'')))))
       \<and> (\<not> ok resp \<longrightarrow>
            schema_lookup rm B X =
              Inl (new_Error (''Schema API responded with status '' @ dec (status resp)))
          \<and> searchRecords_handler L rm B X T ids mr =
              ([MetaTables B],
               Inl (new_Error (''Failed to search records: Error: Schema API responded with status ''
                      @ dec (status resp)))))"
proof (intro conjI impI allI)
  assume ok: "ok resp"
  note l = lookup_ok [OF assms ok, of X]
  show "schema_lookup rm B X = Inl (new_Error (''Table '' @ X @ '' not found''))
      \<longleftrightarrow> \<not> (\<exists>t \<in> set (tables resp). t_id t = X \<or> t_name t = X)"
    unfolding l by (auto simp: find_None_iff find_Some_iff split: option.splits)
  show "schema_lookup rm B X = Inr t
      \<longleftrightarrow> (\<exists>i < length (tables resp). t = tables resp ! i
             \<and> (t_id t = X \<or> t_name t = X)
             \<and> (\<forall>j < i. \<not> (t_id (tables resp ! j) = X \<or> t_name (tables resp ! j) = X)))" for t
  proof -
    have "schema_lookup rm B X = Inr t
        \<longleftrightarrow> find (\<lambda>t. t_id t = X \<or> t_name t = X) (tables resp) = Some t"
      unfolding l by (simp split: option.splits)
    also have "\<dots> \<longleftrightarrow> (\<exists>i < length (tables resp). t = tables resp ! i
             \<and> (t_id t = X \<or> t_name t = X)
             \<and> (\<forall>j < i. \<not> (t_id (tables resp ! j) = X \<or> t_name (tables resp ! j) = X)))"
      unfolding find_Some_iff by blast
    finally show ?thesis .
  qed
  assume "\<forall>t \<in> set (tables resp). \<not> (t_id t = X \<or> t_name t = X)"
  then have "find (\<lambda>t. t_id t = X \<or> t_name t = X) (tables resp) = None"
    by (simp add: find_None_iff)
  with l have "schema_lookup rm B X = Inl (new_Error (''Table '' @ X @ '' not found''))"
    by simp
  from search_schema_fails [OF this]
  show "searchRecords_handler L rm B X T ids mr =
      ([MetaTables B],
       Inl (new_Error (''Failed to search records: Error: Table '' @ X @ '' not found'')))"
    by (simp add: new_Error_def)
next
  assume nok: "\<not> ok resp"
  note l = lookup_not_ok [OF assms nok, of X]
  show "schema_lookup rm B X =
      Inl (new_Error (''Schema API responded with status '' @ dec (status resp)))"
    by (rule l)
  from search_schema_fails [OF l]
  show "searchRecords_handler L rm B X T ids mr =
      ([MetaTables B],
       Inl (new_Error (''Failed to search records: Error: Schema API responded with status ''
              @ dec (status resp))))"
    by (simp add: new_Error_def)
qed


theorem schema_lookup_outcomes_witness:
  "schema_lookup shop ''app1'' ''Parts'' = Inr parts_table
   \<and> schema_lookup shop ''app1'' ''tblParts'' = Inr parts_table
   \<and> schema_lookup shop ''app1'' ''Nope'' = Inl (new_Error ''Table Nope not found'')
   \<and> searchRecords_handler ascii_lowering shop ''app1'' ''Nope'' ''red'' None None =
       ([MetaTables ''app1''],
        Inl (new_Error ''Failed to search records: Error: Table Nope not found''))
   \<and> searchRecords_handler ascii_lowering shop ''app2'' ''Parts'' ''red'' None None =
       ([MetaTables ''app2''],
        Inl (new_Error ''Failed to search records: Error: Schema API responded with status 403''))"
proof -
  have m1: "meta_tables shop ''app1'' =
      Inr \<lparr>ok = True, status = 200, tables = [orders_table, parts_table]\<rparr>"
    by (simp add: shop_def)
  have m2: "meta_tables shop ''app2'' = Inr \<lparr>ok = False, status = 403, tables = []\<rparr>"
    by (simp add: shop_def)
  note a = schema_lookup_outcomes
    [OF m1, where X = "''Nope''" and L = ascii_lowering and T = "''red''" and ids = None and mr = None]
  note b = schema_lookup_outcomes
    [OF m2, where X = "''Parts''" and L = ascii_lowering and T = "''red''" and ids = None and mr = None]
  note c = schema_lookup_outcomes
    [OF m1, where X = "''Parts''" and L = ascii_lowering and T = "''red''" and ids = None and mr = None]
  note d = schema_lookup_outcomes
    [OF m1, where X = "''tblParts''" and L = ascii_lowering and T = "''red''" and ids = None
      and mr = None]
  have "schema_lookup shop ''app1'' ''Nope'' = Inl (new_Error ''Table Nope not found'')"
    using a by (simp add: orders_table_def parts_table_def)
  moreover have "searchRecords_handler ascii_lowering shop ''app1'' ''Nope'' ''red'' None None =
       ([MetaTables ''app1''],
        Inl (new_Error ''Failed to search records: Error: Table Nope not found''))"
    using a by (simp add: orders_table_def parts_table_def)
  moreover have "searchRecords_handler ascii_lowering shop ''app2'' ''Parts'' ''red'' None None =
       ([MetaTables ''app2''],
        Inl (new_Error ''Failed to search records: Error: Schema API responded with status 403''))"
    using b by (simp add: dec.simps digit_def)
  moreover have "schema_lookup shop ''app1'' ''Parts'' = Inr parts_table"
    using c [THEN conjunct1, rule_format, THEN conjunct2, THEN conjunct1, rule_format, of parts_table]
    by (simp add: orders_table_def parts_table_def) (rule exI [of _ 1], simp)
  moreover have "schema_lookup shop ''app1'' ''tblParts'' = Inr parts_table"
    using d [THEN conjunct1, rule_format, THEN conjunct2, THEN conjunct1, rule_format, of parts_table]
    by (simp add: orders_table_def parts_table_def) (rule exI [of _ 1], simp)
  ultimately show ?thesis by blast
qed

section \<open>A search without search fields\<close>

text \<open>
  The order of the steps when no search field results. The search of the parts table of
  the example service with the field id \<open>fldZ\<close>, which is the id of no field, resolves
  to no field name and fails; yet the log of requests holds the record fetch, which was
  sent before the fields were resolved.
\<close>

theorem empty_resolution_counterexample:
  "searchFieldNames (t_fields parts_table) (Some [''fldZ'']) = []
   \<and> searchRecords_handler ascii_lowering shop ''app1'' ''Parts'' ''red'' (Some [''fldZ'']) None =
       ([MetaTables ''app1'', Select ''app1'' ''Parts'' (searchRecords_queryParams None)],
        Inl (new_Error ''Failed to search records: Error: No searchable fields found''))
   \<and> Select ''app1'' ''Parts'' (searchRecords_queryParams None)
       \<in> set (fst (searchRecords_handler ascii_lowering shop ''app1'' ''Parts'' ''red'' (Some [''fldZ'']) None))"
proof -
  have n: "searchFieldNames (t_fields parts_table) (Some [''fldZ'']) = []"
    by (simp add: searchFieldNames_def parts_table_def parts_fields_def)
  from search_no_fields [OF shop_lookup shop_select n, where L = ascii_lowering]
  show ?thesis using n by simp
qed

text \<open>
  Claim C3, as the code has it. When the schema lookup succeeds and the resolution yields
  no field name, the search fails and returns no record, whatever the search term; the
  requests sent are the schema request followed by one record fetch, which precedes the
  resolution; and when that fetch succeeds, the failure is the error
  ``No searchable fields found'' under the message prefix of the search.
\<close>

theorem empty_resolution_fails_after_fetch:
  assumes "schema_lookup rm B X = Inr t"
    and "searchFieldNames (t_fields t) ids = []"
  shows "\<exists>e. searchRecords_handler L rm B X T ids mr =
            ([MetaTables B, Select B X (searchRecords_queryParams mr)], Inl e)
          \<and> (\<forall>fetched. select_all rm B X (searchRecords_queryParams mr) = Inr fetched \<longrightarrow>
                e = new_Error ''Failed to search records: Error: No searchable fields found'')"
proof (cases "select_all rm B X (searchRecords_queryParams mr)")
  case (Inl e)
  with search_select_fails [OF assms(1) Inl] show ?thesis by simp
next
  case (Inr fetched)
  with search_no_fields [OF assms(1) Inr assms(2)] show ?thesis by simp
qed

theorem empty_resolution_fails_after_fetch_witness:
  "schema_lookup shop ''app1'' ''tblOrders'' = Inr orders_table
   \<and> searchFieldNames (t_fields orders_table) None = []
   \<and> searchRecords_handler ascii_lowering shop ''app1'' ''tblOrders'' ''red'' None (Some 7) =
       ([MetaTables ''app1'', Select ''app1'' ''tblOrders'' (searchRecords_queryParams (Some 7))],
        Inl (new_Error ''Failed to search records: Error: No searchable fields found''))"
proof -
  have l: "schema_lookup shop ''app1'' ''tblOrders'' = Inr orders_table"
    by (simp add: schema_lookup_def shop_def orders_table_def)
  have n: "searchFieldNames (t_fields orders_table) None = []"
    by (simp add: searchFieldNames_def orders_table_def textFieldTypes_def)
  from empty_resolution_fails_after_fetch
    [OF l n, where L = ascii_lowering and T = "''red''" and mr = "Some 7"] l n
  show ?thesis by (auto simp: shop_select)
qed

section \<open>Failures of the remote calls\<close>

lemma list_fails:
  "select_all rm B X (listRecords_queryParams mr v s) = Inl e \<Longrightarrow>
   listRecords_handler rm B X mr v s =
     ([Select B X (listRecords_queryParams mr v s)],
      Inl (new_Error (''Failed to list records: '' @ toString e)))"
  by (simp add: listRecords_handler_def Let_def)

lemma get_fails:
  "find_record rm B X r = Inl e \<Longrightarrow>
   getRecord_handler rm B X r =
     ([Find B X r], Inl (new_Error (''Failed to get record: '' @ toString e)))"
  by (simp add: getRecord_handler_def)

lemma create_fails:
  "create_record rm B X fs = Inl e \<Longrightarrow>
   createRecord_handler rm B X fs =
     ([Create B X fs], Inl (new_Error (''Failed to create record: '' @ toString e)))"
  by (simp add: createRecord_handler_def)

lemma update_fails:
  "update_record rm B X r fs = Inl e \<Longrightarrow>
   updateRecord_handler rm B X r fs =
     ([Update B X r fs], Inl (new_Error (''Failed to update record: '' @ toString e)))"
  by (simp add: updateRecord_handler_def)

lemma delete_fails:
  "destroy_record rm B X r = Inl e \<Longrightarrow>
   deleteRecord_handler rm B X r =
     ([Destroy B X r], Inl (new_Error (''Failed to delete record: '' @ toString e)))"
  by (simp add: deleteRecord_handler_def)

lemma lookup_throws: "meta_tables rm B = Inl e \<Longrightarrow> schema_lookup rm B X = Inl e"
  by (simp add: schema_lookup_def)

text \<open>
  Claim C8. In each of the six record operations (list, get, create, update, delete,
  search), a remote call that fails is caught and thrown again as one error whose message
  is the operation's prefix followed by the text of the original failure, which contains
  the original message. The failing request was sent once: the log holds it a single
  time, and nothing after it. For the search this covers the schema request and the
  record fetch. In particular, deleting a record that does not exist gives such an error
  with the message of the remote service in it.
\<close>

theorem remote_failures_resignalled:
  "(select_all rm B X (listRecords_queryParams mr v s) = Inl e \<longrightarrow>
      listRecords_handler rm B X mr v s =
        ([Select B X (listRecords_queryParams mr v s)],
         Inl (new_Error (''Failed to list records: '' @ toString e)))
      \<and> sublist (message_of e) (''Failed to list records: '' @ toString e))
   \<and> (find_record rm B X r = Inl e \<longrightarrow>
      getRecord_handler rm B X r =
        ([Find B X r], Inl (new_Error (''Failed to get record: '' @ toString e)))
      \<and> sublist (message_of e) (''Failed to get record: '' @ toString e))
   \<and> (create_record rm B X fs = Inl e \<longrightarrow>
      createRecord_handler rm B X fs =
        ([Create B X fs], Inl (new_Error (''Failed to create record: '' @ toString e)))
      \<and> sublist (message_of e) (''Failed to create record: '' @ toString e))
   \<and> (update_record rm B X r fs = Inl e \<longrightarrow>
      updateRecord_handler rm B X r fs =
        ([Update B X r fs], Inl (new_Error (''Failed to update record: '' @ toString e)))
      \<and> sublist (message_of e) (''Failed to update record: '' @ toString e))
   \<and> (destroy_record rm B X r = Inl e \<longrightarrow>
      deleteRecord_handler rm B X r =
        ([Destroy B X r], Inl (new_Error (''Failed to delete record: '' @ toString e)))
      \<and> sublist (message_of e) (''Failed to delete record: '' @ toString e))
   \<and> (meta_tables rm B = Inl e \<longrightarrow>
      searchRecords_handler L rm B X T ids mr =
        ([MetaTables B], Inl (new_Error (''Failed to search records: '' @ toString e)))
      \<and> sublist (message_of e) (''Failed to search records: '' @ toString e))
   \<and> (schema_lookup rm B X = Inr t \<and> select_all rm B X (searchRecords_queryParams mr) = Inl e \<longrightarrow>
      searchRecords_handler L rm B X T ids mr =
        ([MetaTables B, Select B X (searchRecords_queryParams mr)],
         Inl (new_Error (''Failed to search records: '' @ toString e)))
      \<and> sublist (message_of e) (''Failed to search records: '' @ toString e))"
proof (intro conjI impI)
  show "sublist (message_of e) (''Failed to list records: '' @ toString e)"
    "sublist (message_of e) (''Failed to get record: '' @ toString e)"
    "sublist (message_of e) (''Failed to create record: '' @ toString e)"
    "sublist (message_of e) (''Failed to update record: '' @ toString e)"
    "sublist (message_of e) (''Failed to delete record: '' @ toString e)"
    "sublist (message_of e) (''Failed to search records: '' @ toString e)"
    "sublist (message_of e) (''Failed to search records: '' @ toString e)"
    by (rule carries_prefixed)+
qed (simp_all add: list_fails get_fails create_fails update_fails delete_fails
      search_schema_fails lookup_throws search_select_fails)

theorem remote_failures_resignalled_witness:
  "destroy_record shop ''app1'' ''Parts'' ''rec9'' = Inl not_found
   \<and> deleteRecord_handler shop ''app1'' ''Parts'' ''rec9'' =
       ([Destroy ''app1'' ''Parts'' ''rec9''],
        Inl (new_Error
          ''Failed to delete record: Could not find what you are looking for(NOT_FOUND)[Http code 404]''))
   \<and> sublist ''Could not find what you are looking for''
       ''Failed to delete record: Could not find what you are looking for(NOT_FOUND)[Http code 404]''"
proof -
  have d: "destroy_record shop ''app1'' ''Parts'' ''rec9'' = Inl not_found"
    by (simp add: shop_def)
  have s: "toString not_found = ''Could not find what you are looking for(NOT_FOUND)[Http code 404]''"
    by (simp add: not_found_def dec.simps digit_def)
  have m: "message_of not_found = ''Could not find what you are looking for''"
    by (simp add: not_found_def)
  from d show ?thesis
    using remote_failures_resignalled
      [where L = ascii_lowering and rm = shop and B = "''app1''" and X = "''Parts''"
        and r = "''rec9''" and e = not_found]
    by (simp add: s m)
qed

section \<open>The formula builder\<close>

lemma replace_quotes_Cons:
  "replace_quotes (c # s) = (if c = CHR 0x22 then [CHR 0x22, CHR 0x22] else [c]) @ replace_quotes s"
  by (simp add: replace_quotes_def)

lemma replace_quotes_Nil: "replace_quotes [] = []"
  by (simp add: replace_quotes_def)

lemma quotes_doubled:
  "length (filter (\<lambda>c. c = CHR 0x22) (replace_quotes s)) = 2 * length (filter (\<lambda>c. c = CHR 0x22) s)"
  by (induction s) (simp_all add: replace_quotes_Cons replace_quotes_Nil)

lemma others_kept:
  "filter (\<lambda>c. c \<noteq> CHR 0x22) (replace_quotes s) = filter (\<lambda>c. c \<noteq> CHR 0x22) s"
  by (induction s) (simp_all add: replace_quotes_Cons replace_quotes_Nil)

lemma read_back:
  "rest = [] \<or> hd rest \<noteq> CHR 0x22 \<Longrightarrow>
   read_literal (replace_quotes s @ CHR 0x22 # rest) = Some (s, rest)"
proof (induction s)
  case Nil
  then show ?case by (cases rest) (simp_all add: replace_quotes_Nil)
next
  case (Cons c s)
  then show ?case by (simp add: replace_quotes_Cons)
qed

lemma join_parts:
  "join sep (x # xs) = x @ concat (map (\<lambda>y. sep @ y) xs)"
  by (induction sep "x # xs" arbitrary: x xs rule: join.induct) simp_all

text \<open>
  Claim C5. For a non-empty list of field names and a term, the formula is \<open>OR(\<close>, one
  sub-expression per field name in the order of the list, separated by a comma and a
  space, and \<open>)\<close>. Each sub-expression is \<open>FIND\<close> of \<open>LOWER\<close> of the term as a
  string literal and \<open>LOWER\<close> of the field reference in braces. In the literal every
  double quote of the term is doubled and every other character is kept, so reading the
  literal back (a doubled quote standing for a quote) gives the term and stops at the
  closing quote. For the field \<open>Name\<close> and the term \<open>He said "hi"\<close> the formula is
  \<open>OR(FIND(LOWER("He said ""hi"""), LOWER({Name})))\<close>.
\<close>

theorem formula_builder:
  \<open>searchFormula (f # fs) T =
      ''OR('' @ searchFormulaPart T f @ concat (map (\<lambda>g. '', '' @ searchFormulaPart T g) fs) @ '')''
   \<and> searchFormulaPart T f = ''FIND(LOWER("'' @ replace_quotes T @ ''"), LOWER({'' @ f @ ''}))''
   \<and> length (filter (\<lambda>c. c = CHR 0x22) (replace_quotes T)) =
       2 * length (filter (\<lambda>c. c = CHR 0x22) T)
   \<and> filter (\<lambda>c. c \<noteq> CHR 0x22) (replace_quotes T) = filter (\<lambda>c. c \<noteq> CHR 0x22) T
   \<and> read_literal (replace_quotes T @ ''"), LOWER({'' @ f @ ''}))'') =
       Some (T, ''), LOWER({'' @ f @ ''}))'')
   \<and> searchFormula [''Name''] ''He said "hi"'' =
       ''OR(FIND(LOWER("He said ""hi"""), LOWER({Name})))''\<close>
proof (intro conjI)
  show \<open>searchFormula (f # fs) T =
      ''OR('' @ searchFormulaPart T f @ concat (map (\<lambda>g. '', '' @ searchFormulaPart T g) fs) @ '')''\<close>
    by (simp add: searchFormula_def join_parts comp_def)
  show \<open>searchFormulaPart T f = ''FIND(LOWER("'' @ replace_quotes T @ ''"), LOWER({'' @ f @ ''}))''\<close>
    by (simp add: searchFormulaPart_def)
  show \<open>read_literal (replace_quotes T @ ''"), LOWER({'' @ f @ ''}))'') =
       Some (T, ''), LOWER({'' @ f @ ''}))'')\<close>
    using read_back [of \<open>''), LOWER({'' @ f @ ''}))''\<close> T] by simp
  show \<open>searchFormula [''Name''] ''He said "hi"'' =
       ''OR(FIND(LOWER("He said ""hi"""), LOWER({Name})))''\<close>
    by (simp add: searchFormula_def searchFormulaPart_def replace_quotes_def)
qed (rule quotes_doubled others_kept)+

theorem formula_builder_witness:
  \<open>searchFormula [''Name'', ''Tags''] ''say "x"'' =
     ''OR(FIND(LOWER("say ""x"""), LOWER({Name})), FIND(LOWER("say ""x"""), LOWER({Tags})))''
   \<and> read_literal ''say ""x"""), LOWER({Name}))'' = Some (''say "x"'', ''), LOWER({Name}))'')\<close>
  using formula_builder [of \<open>''Name''\<close> \<open>[''Tags'']\<close> \<open>''say "x"''\<close>]
  by (simp add: searchFormulaPart_def replace_quotes_def)

section \<open>The search tool of the server\<close>

lemma tool_search_calls:
  "fst (searchRecordsTool_handler rm B X T fieldNames mr) =
     (case fieldNames of
        None \<Rightarrow> []
      | Some [] \<Rightarrow> []
      | Some (n # ns) \<Rightarrow>
          [Select B X (no_params\<lparr>filterByFormula := Some (searchFormula (n # ns) T),
             maxRecords := Some (case mr of None \<Rightarrow> 100 | Some k \<Rightarrow> k)\<rparr>)])"
  by (simp add: searchRecordsTool_handler_def Let_def split: option.splits list.splits sum.splits)

text \<open>
  Claim C6. Without field names, absent or an empty list, the search tool of the server
  returns the error object that asks for field names, and its log of requests is empty:
  no formula was given to the remote service and nothing was fetched. On no input does it
  request the schema of a table, so the field names are never inferred from field types;
  with field names its only request is the select with the formula.
\<close>

theorem tool_search_needs_field_names:
  "(fieldNames = None \<or> fieldNames = Some [] \<longrightarrow>
      searchRecordsTool_handler rm B X T fieldNames mr =
        ([], Inl \<lparr>error = fieldNames_required, details = None, constructedFormula = None\<rparr>))
   \<and> MetaTables B' \<notin> set (fst (searchRecordsTool_handler rm B X T fieldNames mr))
   \<and> (fieldNames = Some (n # ns) \<longrightarrow>
        fst (searchRecordsTool_handler rm B X T fieldNames mr) =
          [Select B X (no_params\<lparr>filterByFormula := Some (searchFormula (n # ns) T),
             maxRecords := Some (case mr of None \<Rightarrow> 100 | Some k \<Rightarrow> k)\<rparr>)])"
proof (intro conjI impI)
  assume "fieldNames = None \<or> fieldNames = Some []"
  then show "searchRecordsTool_handler rm B X T fieldNames mr =
      ([], Inl \<lparr>error = fieldNames_required, details = None, constructedFormula = None\<rparr>)"
    by (auto simp: searchRecordsTool_handler_def)
next
  show "MetaTables B' \<notin> set (fst (searchRecordsTool_handler rm B X T fieldNames mr))"
    unfolding tool_search_calls by (simp split: option.splits list.splits)
next
  assume "fieldNames = Some (n # ns)"
  then show "fst (searchRecordsTool_handler rm B X T fieldNames mr) =
      [Select B X (no_params\<lparr>filterByFormula := Some (searchFormula (n # ns) T),
         maxRecords := Some (case mr of None \<Rightarrow> 100 | Some k \<Rightarrow> k)\<rparr>)]"
    unfolding tool_search_calls by simp
qed

theorem tool_search_needs_field_names_witness:
  "searchRecordsTool_handler shop ''app1'' ''Parts'' ''red'' None None =
     ([], Inl \<lparr>error = fieldNames_required, details = None, constructedFormula = None\<rparr>)
   \<and> searchRecordsTool_handler shop ''app1'' ''Parts'' ''red'' (Some []) (Some 5) =
     ([], Inl \<lparr>error = fieldNames_required, details = None, constructedFormula = None\<rparr>)
   \<and> fst (searchRecordsTool_handler shop ''app1'' ''Parts'' ''red'' (Some [''Name'']) None) =
     [Select ''app1'' ''Parts''
        (no_params\<lparr>filterByFormula := Some (searchFormula [''Name''] ''red''),
           maxRecords := Some 100\<rparr>)]"
  using tool_search_needs_field_names [of None shop "''app1''" "''Parts''" "''red''" None]
    tool_search_needs_field_names [of "Some []" shop "''app1''" "''Parts''" "''red''" "Some 5"]
    tool_search_needs_field_names
      [of "Some [''Name'']" shop "''app1''" "''Parts''" "''red''" None "[]" "''Name''" "[]"]
  by simp

section \<open>The default record limit of the list operation\<close>

text \<open>
  Claim C4, on the three front ends of the list operation, each called without a record
  limit: the handler of the record module selects with a limit of 100; the tool of the
  server gives \<open>select\<close> no limit, its own default being left out; the HTTP route
  selects with a limit of 3.
\<close>

theorem list_default_limit:
  "maxRecords (listRecords_queryParams None v s) = Some 100
   \<and> fst (listRecords_handler rm ''app1'' ''Parts'' None None None) =
       [Select ''app1'' ''Parts'' (no_params\<lparr>maxRecords := Some 100\<rparr>)]
   \<and> fst (listRecordsTool_handler rm ''app1'' ''Parts'' no_params) =
       [Select ''app1'' ''Parts'' (no_params\<lparr>maxRecords := None\<rparr>)]
   \<and> fst (list_records_route rm bare_request) =
       [Select ''app1'' ''Parts''
          \<lparr>view = Some [], select_fields = Some [], maxRecords = Some 3,
           filterByFormula = Some [], sort = Some []\<rparr>]"
  by (simp add: listRecords_queryParams_def listRecords_handler_def listRecordsTool_handler_def
      list_records_route_def route_params_def bare_request_def no_params_def truthy_def Let_def
      split: sum.splits)

theorem list_default_limit_witness:
  "fst (listRecords_handler shop ''app1'' ''Parts'' None None None) =
       [Select ''app1'' ''Parts'' (no_params\<lparr>maxRecords := Some 100\<rparr>)]
   \<and> fst (listRecordsTool_handler shop ''app1'' ''Parts'' no_params) =
       [Select ''app1'' ''Parts'' (no_params\<lparr>maxRecords := None\<rparr>)]
   \<and> fst (list_records_route shop bare_request) =
       [Select ''app1'' ''Parts''
          \<lparr>view = Some [], select_fields = Some [], maxRecords = Some 3,
           filterByFormula = Some [], sort = Some []\<rparr>]"
  using list_default_limit [of None None shop] by simp

end
